theory Spec2Isabelle
  imports Main
begin

section \<open>JavaScript values and objects\<close>

text \<open>
  The two source files are dynamically typed JavaScript. The values that reach them are
  modelled by the datatype below: \<open>undefined\<close>, \<open>null\<close>, booleans and strings. Numbers and
  nested objects are left out (no function of the two files computes with them). A string
  is a list of code units, and a \<open>char\<close> is a code unit below 256 (the code points
  \<open>U+0000\<close> to \<open>U+00FF\<close>); the separators the code looks for (\<open>.\<close> and \<open>@\<close>) are
  single code units.
\<close>

datatype jsval = JUndefined | JNull | JBool bool | JStr string

text \<open>Truthiness, as tested by \<open>!x\<close>, \<open>if (x)\<close> and \<open>while (x)\<close>.\<close>

fun truthy :: "jsval \<Rightarrow> bool" where
  "truthy JUndefined = False"
| "truthy JNull = False"
| "truthy (JBool b) = b"
| "truthy (JStr s) = (s \<noteq> [])"

text \<open>
  String conversion, as done by a template literal \<open>`${x}`\<close>, by a property key
  \<open>obj[x]\<close> and by \<open>encodeURI(x)\<close>.
\<close>

fun toString :: "jsval \<Rightarrow> string" where
  "toString JUndefined = ''undefined''"
| "toString JNull = ''null''"
| "toString (JBool b) = (if b then ''true'' else ''false'')"
| "toString (JStr s) = s"

text \<open>
  A plain data object: its own properties. Reading a property the object does not have
  gives \<open>undefined\<close>; an assignment \<open>obj[k] = v\<close> creates or overwrites the property
  named by the string conversion of \<open>k\<close>. This is the behaviour at every key that is
  not a member of \<open>Object.prototype\<close> (\<open>$class\<close>, \<open>$relationship\<close>, \<open>null\<close>,
  \<open>undefined\<close> and the field names of a model are such keys). At a member of
  \<open>Object.prototype\<close> (\<open>constructor\<close>, \<open>toString\<close>, \<open>__proto__\<close> and the like) a read
  of an object without that own property finds the inherited member and a write to
  \<open>__proto__\<close> creates no property: those keys are outside the model, and no theorem
  below reads or writes one.
\<close>

type_synonym jsobj = "string \<rightharpoonup> jsval"

definition getProp :: "jsobj \<Rightarrow> jsval \<Rightarrow> jsval" where
  "getProp obj k = (case obj (toString k) of None \<Rightarrow> JUndefined | Some v \<Rightarrow> v)"

definition setProp :: "jsobj \<Rightarrow> jsval \<Rightarrow> jsval \<Rightarrow> jsobj" where
  "setProp obj k v = obj(toString k \<mapsto> v)"

text \<open>
  The errors thrown by the two files. Both throw plain \<open>Error\<close> objects told apart by
  their message only; the constructors name the kinds:
  \<^item> \<open>InvalidArgument\<close>: \<open>modelutil-getnamespace-nofnq\<close>, \<open>Namespace is null or undefined.\<close>,
    \<open>Invalid namespace ...\<close>;
  \<^item> \<open>MissingTypeTag\<close>: \<open>Input object does not have a $class attribute.\<close>;
  \<^item> \<open>UnknownType\<close>: \<open>Type ... is not declared in the model manager\<close>, \<open>Cannot find type ...\<close>;
  \<^item> \<open>NotIdentifiable\<close>: \<open>Object is not identifiable.\<close>;
  \<^item> \<open>TypeError\<close>: raised by the language itself when a string method is called on a
    value that is not a string.
\<close>

datatype error = InvalidArgument | MissingTypeTag | UnknownType | NotIdentifiable | TypeError

section \<open>String primitives of the language\<close>

text \<open>\<open>s.lastIndexOf(c)\<close> for a one-character search string: the last index, or \<open>-1\<close>.\<close>

fun lastIndexOf :: "string \<Rightarrow> char \<Rightarrow> int" where
  "lastIndexOf [] c = -1"
| "lastIndexOf (x # xs) c =
     (let r = lastIndexOf xs c in
      if r \<ge> 0 then r + 1 else if x = c then 0 else -1)"

text \<open>
  \<open>s.substr(start)\<close> and \<open>s.substr(start, length)\<close>: a negative start counts from the end,
  and the range is clipped to the string.
\<close>

definition substr :: "string \<Rightarrow> int \<Rightarrow> int option \<Rightarrow> string" where
  "substr s start len =
     (let size = int (length s);
          intStart = (if start < 0 then max (size + start) 0 else min start size);
          intLength = (case len of None \<Rightarrow> size | Some l \<Rightarrow> min (max l 0) size);
          intEnd = min (intStart + intLength) size
      in take (nat (intEnd - intStart)) (drop (nat intStart) s))"

text \<open>\<open>s.split(c)\<close> for a one-character separator: one more segment than separators.\<close>

fun split :: "string \<Rightarrow> char \<Rightarrow> string list" where
  "split [] c = [[]]"
| "split (x # xs) c =
     (if x = c then [] # split xs c
      else (case split xs c of [] \<Rightarrow> [[x]] | p # ps \<Rightarrow> (x # p) # ps))"

text \<open>\<open>s.replace(c, r)\<close> with a string pattern: only the first occurrence is replaced.\<close>

fun replace :: "string \<Rightarrow> char \<Rightarrow> string \<Rightarrow> string" where
  "replace [] c r = []"
| "replace (x # xs) c r = (if x = c then r @ xs else x # replace xs c r)"

text \<open>\<open>xs.indexOf(v)\<close> on an array, with strict equality: the first index, or \<open>-1\<close>.\<close>

fun indexOf :: "'a list \<Rightarrow> 'a \<Rightarrow> int" where
  "indexOf [] v = -1"
| "indexOf (x # xs) v =
     (if x = v then 0 else (let r = indexOf xs v in if r \<ge> 0 then r + 1 else -1))"

text \<open>\<open>xs.some(p)\<close> on an array.\<close>

fun some :: "'a list \<Rightarrow> ('a \<Rightarrow> bool) \<Rightarrow> bool" where
  "some [] p = False"
| "some (x # xs) p = (if p x then True else some xs p)"

text \<open>
  \<open>encodeURI\<close>: a code unit among the unreserved and reserved characters of a URI (and
  \<open>#\<close>) is kept; any other is replaced by the bytes of its UTF-8 encoding, each written
  as \<open>%XX\<close>. A code unit below 128 is one byte, one from 128 to 255 is two bytes.
\<close>

definition uriKept :: "char list" where
  "uriKept = ''ABCDEFGHIJKLMNOPQRSTUVWXYZabcdefghijklmnopqrstuvwxyz0123456789''
     @ [CHR ''-'', CHR ''_'', CHR ''.'', CHR ''!'', CHR ''~'', CHR ''*'', CHR 0x27, CHR ''('', CHR '')'',
        CHR '';'', CHR ''/'', CHR ''?'', CHR '':'', CHR ''@'', CHR ''&'', CHR ''='', CHR ''+'', CHR ''$'',
        CHR '','', CHR ''#'']"

definition hexDigit :: "nat \<Rightarrow> char" where
  "hexDigit n = ''0123456789ABCDEF'' ! (n mod 16)"

definition utf8 :: "char \<Rightarrow> nat list" where
  "utf8 c = (let n = (of_char c :: nat) in
             if n < 128 then [n] else [192 + n div 64, 128 + n mod 64])"

definition percent :: "nat \<Rightarrow> string" where
  "percent b = [CHR ''%'', hexDigit (b div 16), hexDigit b]"

definition encodeURI :: "jsval \<Rightarrow> string" where
  "encodeURI v =
     concat (map (\<lambda>c. if c \<in> set uriKept then [c] else concat (map percent (utf8 c)))
                 (toString v))"

section \<open>The capabilities the code consumes\<close>

text \<open>
  The model manager (or model file), the type declarations it resolves to, the property
  and the \<open>semver\<close> package are not part of the two files; they are parameters. A
  declaration is a value of an arbitrary type \<open>'d\<close>, and each method the code calls on it
  is a field of the record:
  \<^item> \<open>mm_getType\<close>: \<open>modelManager.getType(x)\<close> and \<open>modelFile.getType(x)\<close>, \<open>None\<close> for
    a falsy result;
  \<^item> \<open>td_getFullyQualifiedName\<close>, \<open>td_getSuperTypeDeclaration\<close> (\<open>None\<close> for a falsy
    result), \<open>td_getAllSuperTypeDeclarations\<close>, \<open>td_getIdentifierFieldName\<close>: the
    methods of a declaration.
  Nothing is assumed about them: the supertype links may form a cycle, the registry may
  resolve a name to a declaration of another name.
\<close>

record 'd modelManager =
  mm_getType :: "jsval \<Rightarrow> 'd option"
  td_getFullyQualifiedName :: "'d \<Rightarrow> string"
  td_getSuperTypeDeclaration :: "'d \<Rightarrow> 'd option"
  td_getAllSuperTypeDeclarations :: "'d \<Rightarrow> 'd list"
  td_getIdentifierFieldName :: "'d \<Rightarrow> jsval"

datatype property = Property (getFullyQualifiedTypeName: string)

text \<open>
  \<open>semver.valid(v)\<close> gives the normalised version or \<open>null\<close>; \<open>semver.parse(v)\<close> gives
  a parsed version (of an arbitrary type \<open>'v\<close>) or \<open>null\<close>.
\<close>

record 'v semver =
  semver_valid :: "string \<Rightarrow> jsval"
  semver_parse :: "string \<Rightarrow> 'v option"

section \<open>ModelUtil\<close>

definition ModelUtil_getShortName :: "jsval \<Rightarrow> error + string" where
  "ModelUtil_getShortName fqn =
     (case fqn of
        JStr s \<Rightarrow>
          (let dotIndex = lastIndexOf s CHR ''.'' in
           if dotIndex > -1 then Inr (substr s (dotIndex + 1) None) else Inr s)
      | _ \<Rightarrow> Inl TypeError)"

definition ModelUtil_getNamespace :: "jsval \<Rightarrow> error + string" where
  "ModelUtil_getNamespace fqn =
     (if \<not> truthy fqn then Inl InvalidArgument
      else case fqn of
        JStr s \<Rightarrow>
          (let dotIndex = lastIndexOf s CHR ''.'' in
           if dotIndex > -1 then Inr (substr s 0 (Some dotIndex)) else Inr [])
      | _ \<Rightarrow> Inl TypeError)"

record 'v parseNamespaceResult =
  name :: string
  escapedNamespace :: string
  version :: "string option"
  versionParsed :: "'v option"

definition ModelUtil_parseNamespace ::
    "'v semver \<Rightarrow> jsval \<Rightarrow> error + 'v parseNamespaceResult" where
  "ModelUtil_parseNamespace sv ns =
     (if \<not> truthy ns then Inl InvalidArgument
      else case ns of
        JStr s \<Rightarrow>
          (let parts = split s CHR ''@'' in
           if length parts > 2 then Inl InvalidArgument
           else if length parts = 2 \<and> \<not> truthy (semver_valid sv (parts ! 1))
             then Inl InvalidArgument
           else Inr \<lparr> name = parts ! 0,
                      escapedNamespace = replace s CHR ''@'' ''_'',
                      version = (if length parts > 1 then Some (parts ! 1) else None),
                      versionParsed =
                        (if length parts > 1 then semver_parse sv (parts ! 1) else None) \<rparr>)
      | _ \<Rightarrow> Inl TypeError)"

definition primitiveTypes :: "jsval list" where
  "primitiveTypes =
     [JStr ''Boolean'', JStr ''String'', JStr ''DateTime'', JStr ''Double'',
      JStr ''Integer'', JStr ''Long'']"

definition ModelUtil_isPrimitiveType :: "jsval \<Rightarrow> bool" where
  "ModelUtil_isPrimitiveType typeName = (indexOf primitiveTypes typeName \<ge> 0)"

definition ModelUtil_isAssignableTo ::
    "'d modelManager \<Rightarrow> jsval \<Rightarrow> property \<Rightarrow> error + bool" where
  "ModelUtil_isAssignableTo modelFile typeName prop =
     (let propertyTypeName = getFullyQualifiedTypeName prop;
          isDirectMatch = (typeName = JStr propertyTypeName)
      in if isDirectMatch \<or> ModelUtil_isPrimitiveType typeName
            \<or> ModelUtil_isPrimitiveType (JStr propertyTypeName)
         then Inr isDirectMatch
         else case mm_getType modelFile typeName of
                None \<Rightarrow> Inl UnknownType
              | Some typeDeclaration \<Rightarrow>
                  Inr (some (td_getAllSuperTypeDeclarations modelFile typeDeclaration)
                         (\<lambda>t. td_getFullyQualifiedName modelFile t = propertyTypeName)))"

definition ModelUtil_getFullyQualifiedName :: "jsval \<Rightarrow> jsval \<Rightarrow> jsval" where
  "ModelUtil_getFullyQualifiedName namespace type =
     (if truthy namespace then JStr (toString namespace @ ''.'' @ toString type) else type)"

section \<open>The introspection functions\<close>

definition checkConcertoObject :: "jsobj \<Rightarrow> 'd modelManager \<Rightarrow> error + 'd" where
  "checkConcertoObject obj modelManager =
     (if \<not> truthy (getProp obj (JStr ''$class'')) then Inl MissingTypeTag
      else case mm_getType modelManager (getProp obj (JStr ''$class'')) of
             None \<Rightarrow> Inl UnknownType
           | Some typeDeclaration \<Rightarrow> Inr typeDeclaration)"

definition getIdentifier :: "jsobj \<Rightarrow> 'd modelManager \<Rightarrow> error + jsval" where
  "getIdentifier obj modelManager =
     (case checkConcertoObject obj modelManager of
        Inl e \<Rightarrow> Inl e
      | Inr _ \<Rightarrow>
          (case mm_getType modelManager (getProp obj (JStr ''$class'')) of
             None \<Rightarrow> Inl TypeError
           | Some typeDeclaration \<Rightarrow>
               (let idField = td_getIdentifierFieldName modelManager typeDeclaration in
                if \<not> truthy idField then Inl NotIdentifiable
                else Inr (getProp obj idField))))"

definition isIdentifiable :: "jsobj \<Rightarrow> 'd modelManager \<Rightarrow> error + bool" where
  "isIdentifiable obj modelManager =
     (case checkConcertoObject obj modelManager of
        Inl e \<Rightarrow> Inl e
      | Inr _ \<Rightarrow>
          (case mm_getType modelManager (getProp obj (JStr ''$class'')) of
             None \<Rightarrow> Inl TypeError
           | Some typeDeclaration \<Rightarrow>
               (let idField = td_getIdentifierFieldName modelManager typeDeclaration in
                Inr (idField \<noteq> JNull))))"

definition isRelationship :: "jsobj \<Rightarrow> 'd modelManager \<Rightarrow> error + bool" where
  "isRelationship obj modelManager =
     (case checkConcertoObject obj modelManager of
        Inl e \<Rightarrow> Inl e
      | Inr _ \<Rightarrow> Inr (getProp obj (JStr ''$relationship'') = JBool True))"

text \<open>
  \<open>setIdentifier\<close> returns nothing and mutates \<open>obj\<close>: the model returns the object
  after the call.
\<close>

definition setIdentifier :: "jsobj \<Rightarrow> 'd modelManager \<Rightarrow> jsval \<Rightarrow> error + jsobj" where
  "setIdentifier obj modelManager id' =
     (case checkConcertoObject obj modelManager of
        Inl e \<Rightarrow> Inl e
      | Inr _ \<Rightarrow>
          (case mm_getType modelManager (getProp obj (JStr ''$class'')) of
             None \<Rightarrow> Inl TypeError
           | Some typeDeclaration \<Rightarrow>
               (let idField = td_getIdentifierFieldName modelManager typeDeclaration in
                Inr (setProp obj idField id'))))"

definition getFullyQualifiedIdentifier :: "jsobj \<Rightarrow> 'd modelManager \<Rightarrow> error + string" where
  "getFullyQualifiedIdentifier obj modelManager =
     (case checkConcertoObject obj modelManager of
        Inl e \<Rightarrow> Inl e
      | Inr _ \<Rightarrow>
          (case getIdentifier obj modelManager of
             Inl e \<Rightarrow> Inl e
           | Inr i \<Rightarrow> Inr (toString (getProp obj (JStr ''$class'')) @ ''#'' @ toString i)))"

definition RESOURCE_SCHEME :: string where
  "RESOURCE_SCHEME = ''resource''"

definition toURI :: "jsobj \<Rightarrow> 'd modelManager \<Rightarrow> error + string" where
  "toURI obj modelManager =
     (case checkConcertoObject obj modelManager of
        Inl e \<Rightarrow> Inl e
      | Inr _ \<Rightarrow>
          (case getIdentifier obj modelManager of
             Inl e \<Rightarrow> Inl e
           | Inr i \<Rightarrow>
               Inr (RESOURCE_SCHEME @ '':'' @ toString (getProp obj (JStr ''$class''))
                      @ ''#'' @ encodeURI i)))"

definition getType :: "jsobj \<Rightarrow> 'd modelManager \<Rightarrow> error + string" where
  "getType obj modelManager =
     (case checkConcertoObject obj modelManager of
        Inl e \<Rightarrow> Inl e
      | Inr _ \<Rightarrow> ModelUtil_getShortName (getProp obj (JStr ''$class'')))"

definition getNamespace :: "jsobj \<Rightarrow> 'd modelManager \<Rightarrow> error + string" where
  "getNamespace obj modelManager =
     (case checkConcertoObject obj modelManager of
        Inl e \<Rightarrow> Inl e
      | Inr _ \<Rightarrow> ModelUtil_getNamespace (getProp obj (JStr ''$class'')))"

text \<open>
  The \<open>while\<close> loop of \<open>instanceOf\<close> follows the direct-supertype link until it finds the
  name or the link is falsy. Nothing in the two files bounds it, so it is a partial
  function: \<open>None\<close> is a walk that never ends. The target \<open>fqt\<close> is a string, as
  documented; it is only compared with \<open>===\<close> to the names of declarations.
\<close>

partial_function (option) walkSuperTypes ::
    "'d modelManager \<Rightarrow> string \<Rightarrow> 'd option \<Rightarrow> bool option" where
  "walkSuperTypes modelManager fqt superTypeDeclaration =
     (case superTypeDeclaration of
        None \<Rightarrow> Some False
      | Some s \<Rightarrow>
          if td_getFullyQualifiedName modelManager s = fqt then Some True
          else walkSuperTypes modelManager fqt (td_getSuperTypeDeclaration modelManager s))"

definition instanceOf :: "jsobj \<Rightarrow> 'd modelManager \<Rightarrow> string \<Rightarrow> (error + bool) option" where
  "instanceOf obj modelManager fqt =
     (case checkConcertoObject obj modelManager of
        Inl e \<Rightarrow> Some (Inl e)
      | Inr classDeclaration \<Rightarrow>
          if td_getFullyQualifiedName modelManager classDeclaration = fqt then Some (Inr True)
          else map_option Inr
                 (walkSuperTypes modelManager fqt
                    (td_getSuperTypeDeclaration modelManager classDeclaration)))"

text \<open>
  The ancestors of a declaration: \<open>superChain mm d ds\<close> holds when following the
  direct-supertype link from \<open>d\<close> visits exactly \<open>ds\<close>, in this order, and then finds
  no further supertype. A declaration on a cycle of links has no such list.
\<close>

fun superChain :: "'d modelManager \<Rightarrow> 'd \<Rightarrow> 'd list \<Rightarrow> bool" where
  "superChain modelManager d [] = (td_getSuperTypeDeclaration modelManager d = None)"
| "superChain modelManager d (s # ds) =
     (td_getSuperTypeDeclaration modelManager d = Some s \<and> superChain modelManager s ds)"

section \<open>Example data\<close>

text \<open>
  A model manager over declarations named by strings, with the chain
  \<open>C extends B extends A\<close> and three types with no identifier field, whose
  \<open>getIdentifierFieldName\<close> gives \<open>null\<close> (\<open>Thing\<close>), \<open>undefined\<close> (\<open>U\<close>) and the empty
  string (\<open>E\<close>); and a \<open>semver\<close> whose only valid version is \<open>1.2.3\<close>. They are inputs
  on which the theorems below are evaluated.
\<close>

definition acmeTypes :: "string list" where
  "acmeTypes = [''org.acme.A'', ''org.acme.B'', ''org.acme.C'', ''org.acme.Thing'',
                ''org.acme.U'', ''org.acme.E'']"

definition acmeModel :: "string modelManager" where
  "acmeModel =
     \<lparr> mm_getType = (\<lambda>v. case v of JStr s \<Rightarrow> if s \<in> set acmeTypes then Some s else None
                                   | _ \<Rightarrow> None),
       td_getFullyQualifiedName = (\<lambda>d. d),
       td_getSuperTypeDeclaration =
         (\<lambda>d. if d = ''org.acme.C'' then Some ''org.acme.B''
               else if d = ''org.acme.B'' then Some ''org.acme.A'' else None),
       td_getAllSuperTypeDeclarations =
         (\<lambda>d. if d = ''org.acme.C'' then [''org.acme.B'', ''org.acme.A'']
               else if d = ''org.acme.B'' then [''org.acme.A''] else []),
       td_getIdentifierFieldName =
         (\<lambda>d. if d = ''org.acme.Thing'' then JNull
               else if d = ''org.acme.U'' then JUndefined
               else if d = ''org.acme.E'' then JStr []
               else JStr ''id'') \<rparr>"

text \<open>
  A registry with an alias: it resolves the short name \<open>Person\<close>, as well as the full
  name, to the declaration named \<open>org.acme.Person\<close>. No declaration has a supertype.
\<close>

definition aliasModel :: "string modelManager" where
  "aliasModel =
     \<lparr> mm_getType = (\<lambda>v. if v = JStr ''Person'' \<or> v = JStr ''org.acme.Person''
                           then Some ''org.acme.Person'' else None),
       td_getFullyQualifiedName = (\<lambda>d. d),
       td_getSuperTypeDeclaration = (\<lambda>d. None),
       td_getAllSuperTypeDeclarations = (\<lambda>d. []),
       td_getIdentifierFieldName = (\<lambda>d. JStr ''id'') \<rparr>"

definition exampleSemver :: "string semver" where
  "exampleSemver =
     \<lparr> semver_valid = (\<lambda>v. if v = ''1.2.3'' then JStr ''1.2.3'' else JNull),
       semver_parse = (\<lambda>v. if v = ''1.2.3'' then Some ''1.2.3'' else None) \<rparr>"

section \<open>Composing and decomposing fully-qualified names\<close>

lemma lastIndexOf_absent: "c \<notin> set s \<Longrightarrow> lastIndexOf s c = -1"
  by (induction s) (auto simp: Let_def)

lemma lastIndexOf_last: "c \<notin> set post \<Longrightarrow> lastIndexOf (pre @ c # post) c = int (length pre)"
  by (induction pre) (auto simp: Let_def lastIndexOf_absent)

lemma substr_from: "substr (pre @ c # post) (int (length pre) + 1) None = post"
proof -
  have "nat (int (length pre) + 1) = Suc (length pre)" by simp
  then show ?thesis by (simp add: substr_def Let_def)
qed

lemma substr_upto: "substr (pre @ c # post) 0 (Some (int (length pre))) = pre"
  by (simp add: substr_def Let_def)

lemma getShortName_last:
  "CHR ''.'' \<notin> set post \<Longrightarrow> ModelUtil_getShortName (JStr (pre @ CHR ''.'' # post)) = Inr post"
  by (simp add: ModelUtil_getShortName_def Let_def lastIndexOf_last substr_from)

lemma getNamespace_last:
  "CHR ''.'' \<notin> set post \<Longrightarrow> ModelUtil_getNamespace (JStr (pre @ CHR ''.'' # post)) = Inr pre"
  by (simp add: ModelUtil_getNamespace_def Let_def lastIndexOf_last substr_upto)

lemma getShortName_nodot:
  "CHR ''.'' \<notin> set s \<Longrightarrow> ModelUtil_getShortName (JStr s) = Inr s"
  by (simp add: ModelUtil_getShortName_def Let_def lastIndexOf_absent)

lemma getNamespace_nodot:
  "CHR ''.'' \<notin> set s \<Longrightarrow> s \<noteq> [] \<Longrightarrow> ModelUtil_getNamespace (JStr s) = Inr []"
  by (simp add: ModelUtil_getNamespace_def Let_def lastIndexOf_absent)

text \<open>
  C6. For a non-empty string \<open>fqn\<close> with at least one dot, the namespace, a dot and
  the short name give \<open>fqn\<close> back; for a non-empty \<open>fqn\<close> with no dot the
  namespace is the empty string and the short name is \<open>fqn\<close> itself.
\<close>

theorem getNamespace_getShortName_recompose:
  assumes "fqn \<noteq> []"
  shows "(CHR ''.'' \<in> set fqn \<longrightarrow>
            (\<exists>ns sn. ModelUtil_getNamespace (JStr fqn) = Inr ns
                    \<and> ModelUtil_getShortName (JStr fqn) = Inr sn
                    \<and> ns @ ''.'' @ sn = fqn))
       \<and> (CHR ''.'' \<notin> set fqn \<longrightarrow>
            ModelUtil_getNamespace (JStr fqn) = Inr []
          \<and> ModelUtil_getShortName (JStr fqn) = Inr fqn)"
proof (intro conjI impI)
  assume "CHR ''.'' \<in> set fqn"
  then obtain pre post where d: "fqn = pre @ CHR ''.'' # post" "CHR ''.'' \<notin> set post"
    using split_list_last [of "CHR ''.''" fqn] by blast
  have "ModelUtil_getNamespace (JStr fqn) = Inr pre"
    using d by (simp add: getNamespace_last)
  moreover have "ModelUtil_getShortName (JStr fqn) = Inr post"
    using d by (simp add: getShortName_last)
  moreover have "pre @ ''.'' @ post = fqn"
    using d(1) by simp
  ultimately show "\<exists>ns sn. ModelUtil_getNamespace (JStr fqn) = Inr ns
                    \<and> ModelUtil_getShortName (JStr fqn) = Inr sn
                    \<and> ns @ ''.'' @ sn = fqn"
    by blast
next
  assume "CHR ''.'' \<notin> set fqn"
  then show "ModelUtil_getNamespace (JStr fqn) = Inr []"
    using assms by (simp add: getNamespace_nodot)
next
  assume "CHR ''.'' \<notin> set fqn"
  then show "ModelUtil_getShortName (JStr fqn) = Inr fqn"
    by (simp add: getShortName_nodot)
qed

theorem getNamespace_getShortName_recompose_witness:
  "''org.acme.Person'' \<noteq> [] \<and> CHR ''.'' \<in> set ''org.acme.Person''
   \<and> (\<exists>ns sn. ModelUtil_getNamespace (JStr ''org.acme.Person'') = Inr ns
            \<and> ModelUtil_getShortName (JStr ''org.acme.Person'') = Inr sn
            \<and> ns @ ''.'' @ sn = ''org.acme.Person'')
   \<and> ''Person'' \<noteq> [] \<and> CHR ''.'' \<notin> set ''Person''
   \<and> ModelUtil_getNamespace (JStr ''Person'') = Inr []
   \<and> ModelUtil_getShortName (JStr ''Person'') = Inr ''Person''"
  using getNamespace_getShortName_recompose [of "''org.acme.Person''"]
        getNamespace_getShortName_recompose [of "''Person''"]
  by simp

text \<open>
  C7. For a non-empty namespace \<open>ns\<close> and a type name \<open>t\<close> with no dot,
  \<open>getFullyQualifiedName\<close> gives \<open>ns.t\<close>, whose namespace is \<open>ns\<close> and whose short
  name is \<open>t\<close>; for an empty (falsy) namespace it returns the type unchanged.
\<close>

theorem getFullyQualifiedName_inverse:
  "(ns \<noteq> [] \<and> CHR ''.'' \<notin> set t \<longrightarrow>
      (\<exists>fqn. ModelUtil_getFullyQualifiedName (JStr ns) (JStr t) = JStr fqn
            \<and> fqn = ns @ ''.'' @ t
            \<and> ModelUtil_getNamespace (JStr fqn) = Inr ns
            \<and> ModelUtil_getShortName (JStr fqn) = Inr t))
   \<and> (\<not> truthy namespace \<longrightarrow> ModelUtil_getFullyQualifiedName namespace type = type)"
  by (simp add: ModelUtil_getFullyQualifiedName_def getNamespace_last getShortName_last)

theorem getFullyQualifiedName_inverse_witness:
  "''org.acme'' \<noteq> [] \<and> CHR ''.'' \<notin> set ''Person''
   \<and> ModelUtil_getFullyQualifiedName (JStr ''org.acme'') (JStr ''Person'') = JStr ''org.acme.Person''
   \<and> ModelUtil_getNamespace (JStr ''org.acme.Person'') = Inr ''org.acme''
   \<and> ModelUtil_getShortName (JStr ''org.acme.Person'') = Inr ''Person''
   \<and> \<not> truthy (JStr [])
   \<and> ModelUtil_getFullyQualifiedName (JStr []) (JStr ''Person'') = JStr ''Person''"
  using getFullyQualifiedName_inverse [of "''org.acme''" "''Person''" "JStr []" "JStr ''Person''"]
  by simp

section \<open>Versioned namespaces\<close>

lemma split_nonempty: "split s c \<noteq> []"
  by (induction s) (auto split: list.splits)

lemma split_absent: "c \<notin> set s \<Longrightarrow> split s c = [s]"
  by (induction s) auto

lemma split_first: "c \<notin> set pre \<Longrightarrow> split (pre @ c # post) c = pre # split post c"
  by (induction pre) auto

lemma length_split: "length (split s c) = Suc (count_list s c)"
  by (induction s) (auto simp: split_nonempty split: list.splits)

lemma replace_absent: "c \<notin> set s \<Longrightarrow> replace s c r = s"
  by (induction s) auto

lemma replace_first: "c \<notin> set pre \<Longrightarrow> replace (pre @ c # post) c r = pre @ r @ post"
  by (induction pre) auto

lemma map_absent: "c \<notin> set s \<Longrightarrow> map (\<lambda>x. if x = c then d else x) s = s"
  by (induction s) auto

lemma first_split_unique:
  "c \<notin> set pre \<Longrightarrow> c \<notin> set pre' \<Longrightarrow> pre @ c # post = pre' @ c # post'
   \<Longrightarrow> pre = pre' \<and> post = post'"
proof (induction pre arbitrary: pre')
  case Nil
  then show ?case by (cases pre') auto
next
  case (Cons x pre)
  then show ?case by (cases pre') auto
qed

text \<open>The shape of a string with exactly one separator.\<close>

lemma count_one:
  "count_list s c = 1 \<Longrightarrow> \<exists>pre post. s = pre @ c # post \<and> c \<notin> set pre \<and> c \<notin> set post"
proof -
  assume n: "count_list s c = 1"
  then have "c \<in> set s" using count_list_0_iff [of s c] by auto
  then obtain pre post where d: "s = pre @ c # post" "c \<notin> set pre"
    using split_list_first [of c s] by blast
  have "count_list s c = count_list pre c + Suc (count_list post c)"
    using d(1) by simp
  then have "count_list post c = 0" using n d(2) by simp
  then have "c \<notin> set post" by (simp add: count_list_0_iff)
  then show ?thesis using d by blast
qed

lemma parseNamespace_plain:
  "s \<noteq> [] \<Longrightarrow> CHR ''@'' \<notin> set s \<Longrightarrow>
   ModelUtil_parseNamespace sv (JStr s)
     = Inr \<lparr> name = s, escapedNamespace = s, version = None, versionParsed = None \<rparr>"
  by (simp add: ModelUtil_parseNamespace_def Let_def split_absent replace_absent)

lemma parseNamespace_versioned:
  "CHR ''@'' \<notin> set pre \<Longrightarrow> CHR ''@'' \<notin> set post \<Longrightarrow>
   ModelUtil_parseNamespace sv (JStr (pre @ CHR ''@'' # post))
     = (if truthy (semver_valid sv post)
        then Inr \<lparr> name = pre, escapedNamespace = pre @ ''_'' @ post, version = Some post,
                   versionParsed = semver_parse sv post \<rparr>
        else Inl InvalidArgument)"
  by (simp add: ModelUtil_parseNamespace_def Let_def split_first split_absent replace_first)

lemma parseNamespace_many:
  "1 < count_list s CHR ''@'' \<Longrightarrow> ModelUtil_parseNamespace sv (JStr s) = Inl InvalidArgument"
  by (auto simp: ModelUtil_parseNamespace_def Let_def length_split)

text \<open>
  C8. On a string, \<open>parseNamespace\<close> fails with \<open>InvalidArgument\<close> exactly when the
  string is empty, or has more than one \<open>@\<close>, or has exactly one \<open>@\<close> and
  \<open>semver.valid\<close> rejects the segment after it; in every other case it succeeds. On
  \<open>null\<close> and \<open>undefined\<close> it fails with \<open>InvalidArgument\<close>.
\<close>

theorem parseNamespace_fails_iff:
  "(ModelUtil_parseNamespace sv (JStr s) = Inl InvalidArgument)
     = (s = [] \<or> 1 < count_list s CHR ''@''
        \<or> (\<exists>pre post. s = pre @ CHR ''@'' # post \<and> CHR ''@'' \<notin> set pre \<and> CHR ''@'' \<notin> set post
              \<and> \<not> truthy (semver_valid sv post)))
   \<and> (ModelUtil_parseNamespace sv (JStr s) \<noteq> Inl InvalidArgument
        \<longrightarrow> (\<exists>r. ModelUtil_parseNamespace sv (JStr s) = Inr r))
   \<and> ModelUtil_parseNamespace sv JNull = Inl InvalidArgument
   \<and> ModelUtil_parseNamespace sv JUndefined = Inl InvalidArgument"
proof -
  consider (empty) "s = []"
    | (plain) "s \<noteq> []" "count_list s CHR ''@'' = 0"
    | (one) "s \<noteq> []" "count_list s CHR ''@'' = 1"
    | (many) "1 < count_list s CHR ''@''"
    by (cases "count_list s CHR ''@''") auto
  then have "(ModelUtil_parseNamespace sv (JStr s) = Inl InvalidArgument)
     = (s = [] \<or> 1 < count_list s CHR ''@''
        \<or> (\<exists>pre post. s = pre @ CHR ''@'' # post \<and> CHR ''@'' \<notin> set pre \<and> CHR ''@'' \<notin> set post
              \<and> \<not> truthy (semver_valid sv post)))
   \<and> (ModelUtil_parseNamespace sv (JStr s) \<noteq> Inl InvalidArgument
        \<longrightarrow> (\<exists>r. ModelUtil_parseNamespace sv (JStr s) = Inr r))"
  proof cases
    case empty
    then show ?thesis by (simp add: ModelUtil_parseNamespace_def)
  next
    case plain
    then have a: "CHR ''@'' \<notin> set s" by (simp add: count_list_0_iff)
    have "ModelUtil_parseNamespace sv (JStr s)
            = Inr \<lparr> name = s, escapedNamespace = s, version = None, versionParsed = None \<rparr>"
      using plain(1) a by (rule parseNamespace_plain)
    then show ?thesis using plain a by auto
  next
    case one
    from count_one [OF one(2)] obtain pre post where
      d: "s = pre @ CHR ''@'' # post" "CHR ''@'' \<notin> set pre" "CHR ''@'' \<notin> set post" by blast
    have p: "ModelUtil_parseNamespace sv (JStr s)
               = (if truthy (semver_valid sv post)
                  then Inr \<lparr> name = pre, escapedNamespace = pre @ ''_'' @ post,
                             version = Some post, versionParsed = semver_parse sv post \<rparr>
                  else Inl InvalidArgument)"
      unfolding d(1) using d(2,3) by (rule parseNamespace_versioned)
    have u: "\<And>pre' post'. s = pre' @ CHR ''@'' # post' \<Longrightarrow> CHR ''@'' \<notin> set pre' \<Longrightarrow> post' = post"
    proof -
      fix pre' post'
      assume e: "s = pre' @ CHR ''@'' # post'" and n: "CHR ''@'' \<notin> set pre'"
      have "pre @ CHR ''@'' # post = pre' @ CHR ''@'' # post'" using d(1) e by simp
      with n d(2) show "post' = post"
        using first_split_unique [of "CHR ''@''" pre' pre post' post] by simp
    qed
    show ?thesis
    proof (cases "truthy (semver_valid sv post)")
      case True
      then have "\<not> (\<exists>pre' post'. s = pre' @ CHR ''@'' # post' \<and> CHR ''@'' \<notin> set pre'
                     \<and> CHR ''@'' \<notin> set post' \<and> \<not> truthy (semver_valid sv post'))"
        using u by blast
      then show ?thesis using True p one by simp
    next
      case False
      then have "\<exists>pre' post'. s = pre' @ CHR ''@'' # post' \<and> CHR ''@'' \<notin> set pre'
                     \<and> CHR ''@'' \<notin> set post' \<and> \<not> truthy (semver_valid sv post')"
        using d by blast
      then show ?thesis using False p by simp
    qed
  next
    case many
    then show ?thesis by (simp add: parseNamespace_many)
  qed
  moreover have "ModelUtil_parseNamespace sv JNull = Inl InvalidArgument"
    by (simp add: ModelUtil_parseNamespace_def)
  moreover have "ModelUtil_parseNamespace sv JUndefined = Inl InvalidArgument"
    by (simp add: ModelUtil_parseNamespace_def)
  ultimately show ?thesis by blast
qed

lemma exampleSemver_valid:
  "semver_valid exampleSemver v = (if v = ''1.2.3'' then JStr ''1.2.3'' else JNull)"
  by (simp add: exampleSemver_def)

lemma exampleSemver_parse:
  "semver_parse exampleSemver v = (if v = ''1.2.3'' then Some ''1.2.3'' else None)"
  by (simp add: exampleSemver_def)

theorem parseNamespace_fails_iff_witness:
  "ModelUtil_parseNamespace exampleSemver (JStr ''org.acme@not-a-version'') = Inl InvalidArgument
   \<and> ModelUtil_parseNamespace exampleSemver (JStr ''a@1.0.0@2.0.0'') = Inl InvalidArgument
   \<and> ModelUtil_parseNamespace exampleSemver (JStr []) = Inl InvalidArgument
   \<and> ModelUtil_parseNamespace exampleSemver (JStr ''org.acme@1.2.3'') \<noteq> Inl InvalidArgument
   \<and> (\<exists>r. ModelUtil_parseNamespace exampleSemver (JStr ''org.acme@1.2.3'') = Inr r)
   \<and> ModelUtil_parseNamespace exampleSemver (JStr ''org.acme'') \<noteq> Inl InvalidArgument
   \<and> (\<exists>r. ModelUtil_parseNamespace exampleSemver (JStr ''org.acme'') = Inr r)"
proof -
  have 1: "ModelUtil_parseNamespace exampleSemver (JStr ''org.acme@not-a-version'')
             = Inl InvalidArgument"
  proof -
    have "''org.acme@not-a-version'' = ''org.acme'' @ CHR ''@'' # ''not-a-version''
          \<and> CHR ''@'' \<notin> set ''org.acme'' \<and> CHR ''@'' \<notin> set ''not-a-version''
          \<and> \<not> truthy (semver_valid exampleSemver ''not-a-version'')"
      by (simp add: exampleSemver_valid)
    then show ?thesis
      using parseNamespace_fails_iff [of exampleSemver "''org.acme@not-a-version''"] by blast
  qed
  have 2: "ModelUtil_parseNamespace exampleSemver (JStr ''a@1.0.0@2.0.0'') = Inl InvalidArgument"
    using parseNamespace_fails_iff [of exampleSemver "''a@1.0.0@2.0.0''"] by simp
  have 3: "ModelUtil_parseNamespace exampleSemver (JStr []) = Inl InvalidArgument"
    using parseNamespace_fails_iff [of exampleSemver "[]"] by simp
  have 4: "ModelUtil_parseNamespace exampleSemver (JStr ''org.acme@1.2.3'') \<noteq> Inl InvalidArgument"
    by (simp add: parseNamespace_versioned [of "''org.acme''" "''1.2.3''", simplified]
                  exampleSemver_valid)
  have 5: "ModelUtil_parseNamespace exampleSemver (JStr ''org.acme'') \<noteq> Inl InvalidArgument"
    by (simp add: parseNamespace_plain)
  have 6: "\<exists>r. ModelUtil_parseNamespace exampleSemver (JStr ''org.acme@1.2.3'') = Inr r"
    using parseNamespace_fails_iff [of exampleSemver "''org.acme@1.2.3''"] 4 by blast
  have 7: "\<exists>r. ModelUtil_parseNamespace exampleSemver (JStr ''org.acme'') = Inr r"
    using parseNamespace_fails_iff [of exampleSemver "''org.acme''"] 5 by blast
  show ?thesis using 1 2 3 4 5 6 7 by blast
qed

text \<open>
  C4. When \<open>parseNamespace\<close> succeeds on a string \<open>ns\<close>: \<open>escapedNamespace\<close> is \<open>ns\<close>
  with every \<open>@\<close> replaced by \<open>_\<close>; with no \<open>@\<close> in \<open>ns\<close> the name is \<open>ns\<close> and
  \<open>version\<close> and \<open>versionParsed\<close> are absent; with an \<open>@\<close> the name is the segment
  before it, \<open>version\<close> is the segment after it and \<open>versionParsed\<close> is what
  \<open>semver.parse\<close> gives for that segment, which is not absent when \<open>semver.parse\<close>
  accepts every version that \<open>semver.valid\<close> accepts.
\<close>

theorem parseNamespace_success:
  assumes "ModelUtil_parseNamespace sv (JStr ns) = Inr r"
  shows "escapedNamespace r = map (\<lambda>c. if c = CHR ''@'' then CHR ''_'' else c) ns
       \<and> (CHR ''@'' \<notin> set ns \<longrightarrow> name r = ns \<and> version r = None \<and> versionParsed r = None)
       \<and> (CHR ''@'' \<in> set ns \<longrightarrow>
            (\<exists>pre post. ns = pre @ CHR ''@'' # post \<and> CHR ''@'' \<notin> set pre
                \<and> name r = pre \<and> version r = Some post
                \<and> versionParsed r = semver_parse sv post
                \<and> ((\<forall>v. truthy (semver_valid sv v) \<longrightarrow> semver_parse sv v \<noteq> None)
                     \<longrightarrow> versionParsed r \<noteq> None)))"
proof (cases "CHR ''@'' \<in> set ns")
  case False
  have "ns \<noteq> []" using assms by (auto simp: ModelUtil_parseNamespace_def)
  then have "r = \<lparr> name = ns, escapedNamespace = ns, version = None, versionParsed = None \<rparr>"
    using assms False by (simp add: parseNamespace_plain)
  then show ?thesis using False by (simp add: map_absent)
next
  case True
  have "\<not> 1 < count_list ns CHR ''@''"
    using assms by (auto simp: parseNamespace_many)
  moreover have "count_list ns CHR ''@'' \<noteq> 0"
    using True by (simp add: count_list_0_iff)
  ultimately have "count_list ns CHR ''@'' = 1" by arith
  from count_one [OF this] obtain pre post where
    d: "ns = pre @ CHR ''@'' # post" "CHR ''@'' \<notin> set pre" "CHR ''@'' \<notin> set post" by blast
  have p: "ModelUtil_parseNamespace sv (JStr ns)
             = (if truthy (semver_valid sv post)
                then Inr \<lparr> name = pre, escapedNamespace = pre @ ''_'' @ post,
                           version = Some post, versionParsed = semver_parse sv post \<rparr>
                else Inl InvalidArgument)"
    unfolding d(1) using d(2,3) by (rule parseNamespace_versioned)
  have v: "truthy (semver_valid sv post)"
    using assms p by (auto split: if_splits)
  then have r: "r = \<lparr> name = pre, escapedNamespace = pre @ ''_'' @ post,
                      version = Some post, versionParsed = semver_parse sv post \<rparr>"
    using assms p by simp
  have e: "map (\<lambda>c. if c = CHR ''@'' then CHR ''_'' else c) ns = pre @ ''_'' @ post"
    unfolding d(1) using d(2,3) by (simp add: map_absent)
  have "ns = pre @ CHR ''@'' # post \<and> CHR ''@'' \<notin> set pre
          \<and> name r = pre \<and> version r = Some post
          \<and> versionParsed r = semver_parse sv post
          \<and> ((\<forall>v. truthy (semver_valid sv v) \<longrightarrow> semver_parse sv v \<noteq> None)
               \<longrightarrow> versionParsed r \<noteq> None)"
    using d(1,2) r v by simp
  then have "\<exists>pre post. ns = pre @ CHR ''@'' # post \<and> CHR ''@'' \<notin> set pre
                \<and> name r = pre \<and> version r = Some post
                \<and> versionParsed r = semver_parse sv post
                \<and> ((\<forall>v. truthy (semver_valid sv v) \<longrightarrow> semver_parse sv v \<noteq> None)
                     \<longrightarrow> versionParsed r \<noteq> None)"
    by blast
  moreover have "escapedNamespace r = map (\<lambda>c. if c = CHR ''@'' then CHR ''_'' else c) ns"
    using r e by simp
  ultimately show ?thesis using True by blast
qed

theorem parseNamespace_success_witness:
  "ModelUtil_parseNamespace exampleSemver (JStr ''org.acme@1.2.3'')
     = Inr \<lparr> name = ''org.acme'', escapedNamespace = ''org.acme_1.2.3'',
             version = Some ''1.2.3'', versionParsed = Some ''1.2.3'' \<rparr>
   \<and> ''org.acme_1.2.3'' = map (\<lambda>c. if c = CHR ''@'' then CHR ''_'' else c) ''org.acme@1.2.3''
   \<and> CHR ''@'' \<in> set ''org.acme@1.2.3''
   \<and> versionParsed \<lparr> name = ''org.acme'', escapedNamespace = ''org.acme_1.2.3'',
                      version = Some ''1.2.3'', versionParsed = Some ''1.2.3'' \<rparr> \<noteq> None
   \<and> ModelUtil_parseNamespace exampleSemver (JStr ''org.acme'')
     = Inr \<lparr> name = ''org.acme'', escapedNamespace = ''org.acme'',
             version = None, versionParsed = None \<rparr>
   \<and> CHR ''@'' \<notin> set ''org.acme''
   \<and> ''org.acme'' = map (\<lambda>c. if c = CHR ''@'' then CHR ''_'' else c) ''org.acme''"
proof -
  have h1: "ModelUtil_parseNamespace exampleSemver (JStr ''org.acme@1.2.3'')
     = Inr \<lparr> name = ''org.acme'', escapedNamespace = ''org.acme_1.2.3'',
             version = Some ''1.2.3'', versionParsed = Some ''1.2.3'' \<rparr>"
    using parseNamespace_versioned [of "''org.acme''" "''1.2.3''" exampleSemver]
    by (simp add: exampleSemver_valid exampleSemver_parse)
  have h2: "ModelUtil_parseNamespace exampleSemver (JStr ''org.acme'')
     = Inr \<lparr> name = ''org.acme'', escapedNamespace = ''org.acme'',
             version = None, versionParsed = None \<rparr>"
    by (simp add: parseNamespace_plain)
  have c: "\<forall>v. truthy (semver_valid exampleSemver v) \<longrightarrow> semver_parse exampleSemver v \<noteq> None"
    by (simp add: exampleSemver_valid exampleSemver_parse)
  have m: "CHR ''@'' \<in> set ''org.acme@1.2.3''" "CHR ''@'' \<notin> set ''org.acme''" by simp_all
  have e1: "''org.acme_1.2.3'' = map (\<lambda>c. if c = CHR ''@'' then CHR ''_'' else c) ''org.acme@1.2.3''"
    using parseNamespace_success [OF h1] by simp
  have p1: "versionParsed \<lparr> name = ''org.acme'', escapedNamespace = ''org.acme_1.2.3'',
                            version = Some ''1.2.3'', versionParsed = Some ''1.2.3'' \<rparr> \<noteq> None"
    using parseNamespace_success [OF h1] m(1) c by blast
  have e2: "''org.acme'' = map (\<lambda>c. if c = CHR ''@'' then CHR ''_'' else c) ''org.acme''"
    using parseNamespace_success [OF h2] by simp
  show ?thesis using h1 h2 e1 e2 p1 m by blast
qed

section \<open>The hierarchy walk of instanceOf\<close>

lemma walkSuperTypes_None: "walkSuperTypes mm fqt None = Some False"
  by (subst walkSuperTypes.simps) simp

lemma walkSuperTypes_Some:
  "walkSuperTypes mm fqt (Some s) =
     (if td_getFullyQualifiedName mm s = fqt then Some True
      else walkSuperTypes mm fqt (td_getSuperTypeDeclaration mm s))"
  by (subst walkSuperTypes.simps) simp

lemma walkSuperTypes_chain:
  "superChain mm d ds \<Longrightarrow>
   walkSuperTypes mm fqt (td_getSuperTypeDeclaration mm d)
     = Some (fqt \<in> td_getFullyQualifiedName mm ` set ds)"
proof (induction ds arbitrary: d)
  case Nil
  then show ?case by (simp add: walkSuperTypes_None)
next
  case (Cons s ds)
  then have link: "td_getSuperTypeDeclaration mm d = Some s" and rest: "superChain mm s ds"
    by simp_all
  show ?case
    using Cons.IH [OF rest] link by (auto simp: walkSuperTypes_Some)
qed

lemma instanceOf_chain:
  assumes "truthy (getProp obj (JStr ''$class''))"
    and "mm_getType mm (getProp obj (JStr ''$class'')) = Some d"
    and "superChain mm d ds"
  shows "instanceOf obj mm fqt
           = Some (Inr (td_getFullyQualifiedName mm d = fqt
                        \<or> fqt \<in> td_getFullyQualifiedName mm ` set ds))"
  using assms(1,2) walkSuperTypes_chain [OF assms(3), of fqt]
  by (simp add: instanceOf_def checkConcertoObject_def)

lemma superChain_unique: "superChain mm d ds \<Longrightarrow> superChain mm d ds' \<Longrightarrow> ds = ds'"
proof (induction ds arbitrary: d ds')
  case Nil
  then show ?case by (cases ds') simp_all
next
  case (Cons s ds)
  then show ?case by (cases ds') auto
qed

lemma superChain_suffix:
  "superChain mm e es \<Longrightarrow> d \<in> set es \<Longrightarrow> \<exists>pre ds. es = pre @ d # ds \<and> superChain mm d ds"
proof (induction es arbitrary: e)
  case Nil
  then show ?case by simp
next
  case (Cons s es)
  show ?case
  proof (cases "d = s")
    case True
    then have "s # es = [] @ d # es \<and> superChain mm d es" using Cons.prems by simp
    then show ?thesis by blast
  next
    case False
    then have "d \<in> set es" using Cons.prems by simp
    moreover have "superChain mm s es" using Cons.prems by simp
    ultimately obtain pre ds where "es = pre @ d # ds" "superChain mm d ds"
      using Cons.IH by blast
    then have "s # es = (s # pre) @ d # ds \<and> superChain mm d ds" by simp
    then show ?thesis by blast
  qed
qed

lemma superChain_acyclic: "superChain mm e es \<Longrightarrow> e \<notin> set es"
proof
  assume c: "superChain mm e es" and m: "e \<in> set es"
  from superChain_suffix [OF c m] obtain pre ds where s: "es = pre @ e # ds" "superChain mm e ds"
    by blast
  have "length es = length (pre @ e # ds)" using s(1) by (rule arg_cong)
  then have l1: "length es = length pre + Suc (length ds)" by simp
  have l2: "length ds = length es" using superChain_unique [OF s(2) c] by (rule arg_cong)
  show False using l1 l2 by arith
qed

text \<open>
  C3. For a valid tagged object whose declaration \<open>d\<close> has the ancestors \<open>ds\<close>,
  \<open>instanceOf\<close> returns, and it returns true exactly when \<open>fqt\<close> is the name of
  \<open>d\<close> or of one of the ancestors. In particular it is false for the name of a
  declaration that is neither \<open>d\<close> nor an ancestor, and for the name of a strict
  descendant (a declaration with \<open>d\<close> among its ancestors), names being unique keys.
\<close>

theorem instanceOf_walks_chain:
  assumes "truthy (getProp obj (JStr ''$class''))"
    and "mm_getType mm (getProp obj (JStr ''$class'')) = Some d"
    and "superChain mm d ds"
  shows "instanceOf obj mm fqt
           = Some (Inr (td_getFullyQualifiedName mm d = fqt
                        \<or> fqt \<in> td_getFullyQualifiedName mm ` set ds))
       \<and> (\<forall>u. u \<notin> set (d # ds) \<and> inj_on (td_getFullyQualifiedName mm) (insert u (set (d # ds)))
              \<longrightarrow> instanceOf obj mm (td_getFullyQualifiedName mm u) = Some (Inr False))
       \<and> (\<forall>e es. superChain mm e es \<and> d \<in> set es
                 \<and> inj_on (td_getFullyQualifiedName mm) (insert e (set es))
              \<longrightarrow> instanceOf obj mm (td_getFullyQualifiedName mm e) = Some (Inr False))"
proof (intro conjI allI impI)
  show "instanceOf obj mm fqt
          = Some (Inr (td_getFullyQualifiedName mm d = fqt
                       \<or> fqt \<in> td_getFullyQualifiedName mm ` set ds))"
    using assms by (rule instanceOf_chain)
next
  fix u
  assume u: "u \<notin> set (d # ds)
             \<and> inj_on (td_getFullyQualifiedName mm) (insert u (set (d # ds)))"
  then have "td_getFullyQualifiedName mm u \<notin> td_getFullyQualifiedName mm ` set (d # ds)"
    by (auto simp: inj_on_def)
  then show "instanceOf obj mm (td_getFullyQualifiedName mm u) = Some (Inr False)"
    using instanceOf_chain [OF assms, of "td_getFullyQualifiedName mm u"] by auto
next
  fix e es
  assume h: "superChain mm e es \<and> d \<in> set es
             \<and> inj_on (td_getFullyQualifiedName mm) (insert e (set es))"
  then have c: "superChain mm e es" and m: "d \<in> set es"
    and i: "inj_on (td_getFullyQualifiedName mm) (insert e (set es))" by simp_all
  from superChain_suffix [OF c m] obtain pre ds' where s: "es = pre @ d # ds'" "superChain mm d ds'"
    by blast
  have "ds' = ds" using s(2) assms(3) by (rule superChain_unique)
  then have sub: "set (d # ds) \<subseteq> set es" using s(1) by auto
  have "e \<notin> set es" using c by (rule superChain_acyclic)
  then have "td_getFullyQualifiedName mm e \<notin> td_getFullyQualifiedName mm ` set es"
    using i by (auto simp: inj_on_def)
  then have "td_getFullyQualifiedName mm e \<notin> td_getFullyQualifiedName mm ` set (d # ds)"
    using sub by blast
  then show "instanceOf obj mm (td_getFullyQualifiedName mm e) = Some (Inr False)"
    using instanceOf_chain [OF assms, of "td_getFullyQualifiedName mm e"] by auto
qed

lemma acme_name: "td_getFullyQualifiedName acmeModel = (\<lambda>d. d)"
  by (simp add: acmeModel_def)

lemma acme_getType_B: "mm_getType acmeModel (JStr ''org.acme.B'') = Some ''org.acme.B''"
  by (simp add: acmeModel_def acmeTypes_def)

lemma acme_chain_B: "superChain acmeModel ''org.acme.B'' [''org.acme.A'']"
  by (simp add: acmeModel_def)

lemma acme_chain_C: "superChain acmeModel ''org.acme.C'' [''org.acme.B'', ''org.acme.A'']"
  by (simp add: acmeModel_def)

theorem instanceOf_walks_chain_witness:
  "truthy (getProp [''$class'' \<mapsto> JStr ''org.acme.B''] (JStr ''$class''))
   \<and> mm_getType acmeModel (getProp [''$class'' \<mapsto> JStr ''org.acme.B''] (JStr ''$class''))
       = Some ''org.acme.B''
   \<and> superChain acmeModel ''org.acme.B'' [''org.acme.A'']
   \<and> instanceOf [''$class'' \<mapsto> JStr ''org.acme.B''] acmeModel ''org.acme.B'' = Some (Inr True)
   \<and> instanceOf [''$class'' \<mapsto> JStr ''org.acme.B''] acmeModel ''org.acme.A'' = Some (Inr True)
   \<and> instanceOf [''$class'' \<mapsto> JStr ''org.acme.B''] acmeModel ''org.acme.Thing'' = Some (Inr False)
   \<and> superChain acmeModel ''org.acme.C'' [''org.acme.B'', ''org.acme.A'']
   \<and> instanceOf [''$class'' \<mapsto> JStr ''org.acme.B''] acmeModel ''org.acme.C'' = Some (Inr False)"
proof -
  let ?obj = "[''$class'' \<mapsto> JStr ''org.acme.B'']"
  have h1: "truthy (getProp ?obj (JStr ''$class''))"
    by (simp add: getProp_def)
  have h2: "mm_getType acmeModel (getProp ?obj (JStr ''$class'')) = Some ''org.acme.B''"
    by (simp add: getProp_def acme_getType_B)
  note t = instanceOf_walks_chain [OF h1 h2 acme_chain_B]
  have own: "instanceOf ?obj acmeModel ''org.acme.B'' = Some (Inr True)"
    using t [of "''org.acme.B''"] by (simp add: acme_name)
  have anc: "instanceOf ?obj acmeModel ''org.acme.A'' = Some (Inr True)"
    using t [of "''org.acme.A''"] by (simp add: acme_name)
  have unrel: "instanceOf ?obj acmeModel ''org.acme.Thing'' = Some (Inr False)"
    using t [of "''org.acme.Thing''"] by (simp add: acme_name)
  have "superChain acmeModel ''org.acme.C'' [''org.acme.B'', ''org.acme.A'']
        \<and> ''org.acme.B'' \<in> set [''org.acme.B'', ''org.acme.A'']
        \<and> inj_on (td_getFullyQualifiedName acmeModel)
                 (insert ''org.acme.C'' (set [''org.acme.B'', ''org.acme.A'']))"
    using acme_chain_C by (simp add: acme_name)
  then have "instanceOf ?obj acmeModel (td_getFullyQualifiedName acmeModel ''org.acme.C'')
               = Some (Inr False)"
    using t [of "''org.acme.C''"] by blast
  then have desc: "instanceOf ?obj acmeModel ''org.acme.C'' = Some (Inr False)"
    by (simp add: acme_name)
  show ?thesis using h1 h2 acme_chain_B acme_chain_C own anc unrel desc by blast
qed

section \<open>Assignability\<close>

lemma some_iff: "some xs p = (\<exists>x \<in> set xs. p x)"
  by (induction xs) auto

lemma indexOf_iff: "(indexOf xs v \<ge> 0) = (v \<in> set xs)"
  by (induction xs) (auto simp: Let_def)

lemma isPrimitiveType_iff:
  "ModelUtil_isPrimitiveType v
     = (v \<in> {JStr ''Boolean'', JStr ''String'', JStr ''DateTime'', JStr ''Double'',
              JStr ''Integer'', JStr ''Long''})"
  unfolding ModelUtil_isPrimitiveType_def indexOf_iff primitiveTypes_def by simp

lemma isPrimitiveType_JStr_iff:
  "ModelUtil_isPrimitiveType (JStr s)
     = (s \<in> {''Boolean'', ''String'', ''DateTime'', ''Double'', ''Integer'', ''Long''})"
  unfolding isPrimitiveType_iff by simp

text \<open>
  C2. \<open>isAssignableTo\<close> is true when the type name equals the property's type;
  otherwise false when either of the two is one of the six primitive names; otherwise
  it fails with \<open>UnknownType\<close> when the type name does not resolve; otherwise it is
  true exactly when the property's type is the name of a declaration in the resolved
  declaration's list of all supertypes.
\<close>

theorem isAssignableTo_cases:
  "(typeName = JStr pt \<longrightarrow> ModelUtil_isAssignableTo mf typeName (Property pt) = Inr True)
   \<and> (typeName \<noteq> JStr pt
        \<and> (typeName \<in> {JStr ''Boolean'', JStr ''String'', JStr ''DateTime'', JStr ''Double'',
                         JStr ''Integer'', JStr ''Long''}
           \<or> pt \<in> {''Boolean'', ''String'', ''DateTime'', ''Double'', ''Integer'', ''Long''})
      \<longrightarrow> ModelUtil_isAssignableTo mf typeName (Property pt) = Inr False)
   \<and> (typeName \<noteq> JStr pt
        \<and> typeName \<notin> {JStr ''Boolean'', JStr ''String'', JStr ''DateTime'', JStr ''Double'',
                         JStr ''Integer'', JStr ''Long''}
        \<and> pt \<notin> {''Boolean'', ''String'', ''DateTime'', ''Double'', ''Integer'', ''Long''}
      \<longrightarrow> (mm_getType mf typeName = None
             \<longrightarrow> ModelUtil_isAssignableTo mf typeName (Property pt) = Inl UnknownType)
        \<and> (\<forall>d. mm_getType mf typeName = Some d
             \<longrightarrow> ModelUtil_isAssignableTo mf typeName (Property pt)
                   = Inr (\<exists>t \<in> set (td_getAllSuperTypeDeclarations mf d).
                            td_getFullyQualifiedName mf t = pt)))"
  unfolding ModelUtil_isAssignableTo_def Let_def some_iff isPrimitiveType_iff isPrimitiveType_JStr_iff
  by simp

theorem isAssignableTo_cases_witness:
  "ModelUtil_isAssignableTo acmeModel (JStr ''String'') (Property ''String'') = Inr True
   \<and> ModelUtil_isAssignableTo acmeModel (JStr ''String'') (Property ''Integer'') = Inr False
   \<and> ModelUtil_isAssignableTo acmeModel (JStr ''org.acme.C'') (Property ''String'') = Inr False
   \<and> mm_getType acmeModel (JStr ''org.acme.Nope'') = None
   \<and> ModelUtil_isAssignableTo acmeModel (JStr ''org.acme.Nope'') (Property ''org.acme.A'')
       = Inl UnknownType
   \<and> mm_getType acmeModel (JStr ''org.acme.C'') = Some ''org.acme.C''
   \<and> td_getAllSuperTypeDeclarations acmeModel ''org.acme.C'' = [''org.acme.B'', ''org.acme.A'']
   \<and> ModelUtil_isAssignableTo acmeModel (JStr ''org.acme.C'') (Property ''org.acme.A'') = Inr True
   \<and> mm_getType acmeModel (JStr ''org.acme.A'') = Some ''org.acme.A''
   \<and> td_getAllSuperTypeDeclarations acmeModel ''org.acme.A'' = []
   \<and> ModelUtil_isAssignableTo acmeModel (JStr ''org.acme.A'') (Property ''org.acme.C'') = Inr False"
proof -
  have g: "mm_getType acmeModel (JStr ''org.acme.Nope'') = None"
    "mm_getType acmeModel (JStr ''org.acme.C'') = Some ''org.acme.C''"
    "mm_getType acmeModel (JStr ''org.acme.A'') = Some ''org.acme.A''"
    "td_getAllSuperTypeDeclarations acmeModel ''org.acme.C'' = [''org.acme.B'', ''org.acme.A'']"
    "td_getAllSuperTypeDeclarations acmeModel ''org.acme.A'' = []"
    by (simp_all add: acmeModel_def acmeTypes_def)
  have 1: "ModelUtil_isAssignableTo acmeModel (JStr ''String'') (Property ''String'') = Inr True"
    using isAssignableTo_cases [of "JStr ''String''" "''String''" acmeModel] by simp
  have 2: "ModelUtil_isAssignableTo acmeModel (JStr ''String'') (Property ''Integer'') = Inr False"
    using isAssignableTo_cases [of "JStr ''String''" "''Integer''" acmeModel] by simp
  have 3: "ModelUtil_isAssignableTo acmeModel (JStr ''org.acme.C'') (Property ''String'') = Inr False"
    using isAssignableTo_cases [of "JStr ''org.acme.C''" "''String''" acmeModel] by simp
  have 4: "ModelUtil_isAssignableTo acmeModel (JStr ''org.acme.Nope'') (Property ''org.acme.A'')
            = Inl UnknownType"
    using isAssignableTo_cases [of "JStr ''org.acme.Nope''" "''org.acme.A''" acmeModel] g(1)
    by simp
  have 5: "ModelUtil_isAssignableTo acmeModel (JStr ''org.acme.C'') (Property ''org.acme.A'') = Inr True"
    using isAssignableTo_cases [of "JStr ''org.acme.C''" "''org.acme.A''" acmeModel] g(2,4)
    by (simp add: acme_name)
  have 6: "ModelUtil_isAssignableTo acmeModel (JStr ''org.acme.A'') (Property ''org.acme.C'') = Inr False"
    using isAssignableTo_cases [of "JStr ''org.acme.A''" "''org.acme.C''" acmeModel] g(3,5)
    by (simp add: acme_name)
  show ?thesis using g 1 2 3 4 5 6 by blast
qed

text \<open>
  C9, as stated, asks of \<open>T\<close> only that it resolves. It fails on a registry that resolves
  \<open>T\<close> to a declaration of another name: \<open>isAssignableTo\<close> compares the name it is given
  with the property's type, \<open>instanceOf\<close> compares the declaration's own name with the
  target. With \<open>T = Person\<close> resolving to the declaration named \<open>org.acme.Person\<close>, which
  has no supertype, and \<open>P = org.acme.Person\<close>, every hypothesis of the claim holds,
  \<open>isAssignableTo\<close> is false and \<open>instanceOf\<close> is true.
\<close>

theorem isAssignableTo_agrees_with_instanceOf_counterexample:
  "mm_getType aliasModel (JStr ''Person'') = Some ''org.acme.Person''
   \<and> superChain aliasModel ''org.acme.Person'' []
   \<and> set (td_getAllSuperTypeDeclarations aliasModel ''org.acme.Person'') = set []
   \<and> \<not> ModelUtil_isPrimitiveType (JStr ''Person'')
   \<and> \<not> ModelUtil_isPrimitiveType (JStr ''org.acme.Person'')
   \<and> truthy (getProp [''$class'' \<mapsto> JStr ''Person''] (JStr ''$class''))
   \<and> mm_getType aliasModel (getProp [''$class'' \<mapsto> JStr ''Person''] (JStr ''$class''))
       = Some ''org.acme.Person''
   \<and> ModelUtil_isAssignableTo aliasModel (JStr ''Person'') (Property ''org.acme.Person'')
       = Inr False
   \<and> instanceOf [''$class'' \<mapsto> JStr ''Person''] aliasModel ''org.acme.Person''
       = Some (Inr True)"
proof -
  have g: "mm_getType aliasModel (JStr ''Person'') = Some ''org.acme.Person''"
    by (simp add: aliasModel_def)
  have c: "superChain aliasModel ''org.acme.Person'' []"
    by (simp add: aliasModel_def)
  have a: "set (td_getAllSuperTypeDeclarations aliasModel ''org.acme.Person'') = set []"
    by (simp add: aliasModel_def)
  have p: "\<not> ModelUtil_isPrimitiveType (JStr ''Person'')"
    "\<not> ModelUtil_isPrimitiveType (JStr ''org.acme.Person'')"
    by (simp_all add: isPrimitiveType_JStr_iff)
  have t: "truthy (getProp [''$class'' \<mapsto> JStr ''Person''] (JStr ''$class''))"
    by (simp add: getProp_def)
  have r: "mm_getType aliasModel (getProp [''$class'' \<mapsto> JStr ''Person''] (JStr ''$class''))
             = Some ''org.acme.Person''"
    by (simp add: getProp_def g)
  have n: "td_getFullyQualifiedName aliasModel = (\<lambda>d. d)"
    "td_getAllSuperTypeDeclarations aliasModel = (\<lambda>d. [])"
    by (simp_all add: aliasModel_def)
  have x: "ModelUtil_isAssignableTo aliasModel (JStr ''Person'') (Property ''org.acme.Person'')
             = Inr False"
    using g p by (simp add: ModelUtil_isAssignableTo_def Let_def n)
  have y: "instanceOf [''$class'' \<mapsto> JStr ''Person''] aliasModel ''org.acme.Person''
             = Some (Inr True)"
    using instanceOf_chain [OF t r c, of "''org.acme.Person''"] by (simp add: n)
  show ?thesis using g c a p t r x y by blast
qed

text \<open>
  C9, amended. Let \<open>T\<close> resolve to the declaration named \<open>T\<close> (the fully-qualified name
  of the declaration \<open>d\<close> it resolves to is \<open>T\<close> itself), let the declarations listed by
  \<open>getAllSuperTypeDeclarations\<close> be those reached by following the direct-supertype link
  from \<open>d\<close>, and let \<open>T\<close> and \<open>P\<close> be non-primitive. Then \<open>isAssignableTo\<close> for \<open>T\<close> and a
  property of type \<open>P\<close> returns the same boolean as \<open>instanceOf\<close> with target \<open>P\<close> on a
  valid tagged object that resolves to \<open>d\<close>.
\<close>

theorem isAssignableTo_agrees_with_instanceOf:
  assumes "mm_getType mm typeName = Some d"
    and "typeName = JStr (td_getFullyQualifiedName mm d)"
    and "superChain mm d ds"
    and "set (td_getAllSuperTypeDeclarations mm d) = set ds"
    and "\<not> ModelUtil_isPrimitiveType typeName"
    and "\<not> ModelUtil_isPrimitiveType (JStr P)"
    and "truthy (getProp obj (JStr ''$class''))"
    and "mm_getType mm (getProp obj (JStr ''$class'')) = Some d"
  shows "\<exists>b. ModelUtil_isAssignableTo mm typeName (Property P) = Inr b
            \<and> instanceOf obj mm P = Some (Inr b)"
proof -
  have i: "instanceOf obj mm P
             = Some (Inr (td_getFullyQualifiedName mm d = P
                          \<or> P \<in> td_getFullyQualifiedName mm ` set ds))"
    using assms(7,8,3) by (rule instanceOf_chain)
  have a: "ModelUtil_isAssignableTo mm typeName (Property P)
             = Inr (td_getFullyQualifiedName mm d = P
                    \<or> (\<exists>t \<in> set ds. td_getFullyQualifiedName mm t = P))"
    using assms(1,2,5,6) assms(4) [symmetric]
    by (auto simp: ModelUtil_isAssignableTo_def Let_def some_iff)
  show ?thesis using i a by auto
qed

theorem isAssignableTo_agrees_with_instanceOf_witness:
  "mm_getType acmeModel (JStr ''org.acme.C'') = Some ''org.acme.C''
   \<and> JStr ''org.acme.C'' = JStr (td_getFullyQualifiedName acmeModel ''org.acme.C'')
   \<and> superChain acmeModel ''org.acme.C'' [''org.acme.B'', ''org.acme.A'']
   \<and> set (td_getAllSuperTypeDeclarations acmeModel ''org.acme.C'')
       = set [''org.acme.B'', ''org.acme.A'']
   \<and> \<not> ModelUtil_isPrimitiveType (JStr ''org.acme.C'')
   \<and> \<not> ModelUtil_isPrimitiveType (JStr ''org.acme.A'')
   \<and> truthy (getProp [''$class'' \<mapsto> JStr ''org.acme.C''] (JStr ''$class''))
   \<and> mm_getType acmeModel (getProp [''$class'' \<mapsto> JStr ''org.acme.C''] (JStr ''$class''))
       = Some ''org.acme.C''
   \<and> ModelUtil_isAssignableTo acmeModel (JStr ''org.acme.C'') (Property ''org.acme.A'') = Inr True
   \<and> instanceOf [''$class'' \<mapsto> JStr ''org.acme.C''] acmeModel ''org.acme.A'' = Some (Inr True)"
proof -
  let ?obj = "[''$class'' \<mapsto> JStr ''org.acme.C'']"
  have h1: "mm_getType acmeModel (JStr ''org.acme.C'') = Some ''org.acme.C''"
    by (simp add: acmeModel_def acmeTypes_def)
  have h2: "JStr ''org.acme.C'' = JStr (td_getFullyQualifiedName acmeModel ''org.acme.C'')"
    by (simp add: acme_name)
  have h4: "set (td_getAllSuperTypeDeclarations acmeModel ''org.acme.C'')
              = set [''org.acme.B'', ''org.acme.A'']"
    by (simp add: acmeModel_def)
  have h5: "\<not> ModelUtil_isPrimitiveType (JStr ''org.acme.C'')"
    by (simp add: isPrimitiveType_JStr_iff)
  have h6: "\<not> ModelUtil_isPrimitiveType (JStr ''org.acme.A'')"
    by (simp add: isPrimitiveType_JStr_iff)
  have h7: "truthy (getProp ?obj (JStr ''$class''))"
    by (simp add: getProp_def)
  have h8: "mm_getType acmeModel (getProp ?obj (JStr ''$class'')) = Some ''org.acme.C''"
    by (simp add: getProp_def h1)
  have a: "ModelUtil_isAssignableTo acmeModel (JStr ''org.acme.C'') (Property ''org.acme.A'') = Inr True"
    using h1 by (simp add: ModelUtil_isAssignableTo_def Let_def isPrimitiveType_JStr_iff acmeModel_def)
  from isAssignableTo_agrees_with_instanceOf [OF h1 h2 acme_chain_C h4 h5 h6 h7 h8]
  have "instanceOf ?obj acmeModel ''org.acme.A'' = Some (Inr True)"
    using a by auto
  then show ?thesis using h1 h2 acme_chain_C h4 h5 h6 h7 h8 a by blast
qed

section \<open>Introspection of tagged objects\<close>

text \<open>
  C5. Each of the nine introspection functions fails with \<open>MissingTypeTag\<close> when the
  object's \<open>$class\<close> is absent (or falsy), and with \<open>UnknownType\<close> when \<open>$class\<close> is
  present and does not resolve in the model manager.
\<close>

theorem introspection_precondition:
  "(\<not> truthy (getProp obj (JStr ''$class'')) \<longrightarrow>
       getIdentifier obj mm = Inl MissingTypeTag
     \<and> isIdentifiable obj mm = Inl MissingTypeTag
     \<and> setIdentifier obj mm v = Inl MissingTypeTag
     \<and> isRelationship obj mm = Inl MissingTypeTag
     \<and> getFullyQualifiedIdentifier obj mm = Inl MissingTypeTag
     \<and> toURI obj mm = Inl MissingTypeTag
     \<and> getType obj mm = Inl MissingTypeTag
     \<and> getNamespace obj mm = Inl MissingTypeTag
     \<and> instanceOf obj mm fqt = Some (Inl MissingTypeTag))
   \<and> (truthy (getProp obj (JStr ''$class''))
        \<and> mm_getType mm (getProp obj (JStr ''$class'')) = None \<longrightarrow>
       getIdentifier obj mm = Inl UnknownType
     \<and> isIdentifiable obj mm = Inl UnknownType
     \<and> setIdentifier obj mm v = Inl UnknownType
     \<and> isRelationship obj mm = Inl UnknownType
     \<and> getFullyQualifiedIdentifier obj mm = Inl UnknownType
     \<and> toURI obj mm = Inl UnknownType
     \<and> getType obj mm = Inl UnknownType
     \<and> getNamespace obj mm = Inl UnknownType
     \<and> instanceOf obj mm fqt = Some (Inl UnknownType))"
proof (intro conjI impI)
  assume "\<not> truthy (getProp obj (JStr ''$class''))"
  then have c: "checkConcertoObject obj mm = Inl MissingTypeTag"
    by (simp add: checkConcertoObject_def)
  show "getIdentifier obj mm = Inl MissingTypeTag" by (simp add: getIdentifier_def c)
  show "isIdentifiable obj mm = Inl MissingTypeTag" by (simp add: isIdentifiable_def c)
  show "setIdentifier obj mm v = Inl MissingTypeTag" by (simp add: setIdentifier_def c)
  show "isRelationship obj mm = Inl MissingTypeTag" by (simp add: isRelationship_def c)
  show "getFullyQualifiedIdentifier obj mm = Inl MissingTypeTag"
    by (simp add: getFullyQualifiedIdentifier_def c)
  show "toURI obj mm = Inl MissingTypeTag" by (simp add: toURI_def c)
  show "getType obj mm = Inl MissingTypeTag" by (simp add: getType_def c)
  show "getNamespace obj mm = Inl MissingTypeTag" by (simp add: getNamespace_def c)
  show "instanceOf obj mm fqt = Some (Inl MissingTypeTag)" by (simp add: instanceOf_def c)
next
  assume "truthy (getProp obj (JStr ''$class''))
          \<and> mm_getType mm (getProp obj (JStr ''$class'')) = None"
  then have c: "checkConcertoObject obj mm = Inl UnknownType"
    by (simp add: checkConcertoObject_def)
  show "getIdentifier obj mm = Inl UnknownType" by (simp add: getIdentifier_def c)
  show "isIdentifiable obj mm = Inl UnknownType" by (simp add: isIdentifiable_def c)
  show "setIdentifier obj mm v = Inl UnknownType" by (simp add: setIdentifier_def c)
  show "isRelationship obj mm = Inl UnknownType" by (simp add: isRelationship_def c)
  show "getFullyQualifiedIdentifier obj mm = Inl UnknownType"
    by (simp add: getFullyQualifiedIdentifier_def c)
  show "toURI obj mm = Inl UnknownType" by (simp add: toURI_def c)
  show "getType obj mm = Inl UnknownType" by (simp add: getType_def c)
  show "getNamespace obj mm = Inl UnknownType" by (simp add: getNamespace_def c)
  show "instanceOf obj mm fqt = Some (Inl UnknownType)" by (simp add: instanceOf_def c)
qed

theorem introspection_precondition_witness:
  "\<not> truthy (getProp [''id'' \<mapsto> JStr ''p1''] (JStr ''$class''))
   \<and> getIdentifier [''id'' \<mapsto> JStr ''p1''] acmeModel = Inl MissingTypeTag
   \<and> setIdentifier [''id'' \<mapsto> JStr ''p1''] acmeModel (JStr ''p2'') = Inl MissingTypeTag
   \<and> toURI [''id'' \<mapsto> JStr ''p1''] acmeModel = Inl MissingTypeTag
   \<and> instanceOf [''id'' \<mapsto> JStr ''p1''] acmeModel ''org.acme.A'' = Some (Inl MissingTypeTag)
   \<and> truthy (getProp [''$class'' \<mapsto> JStr ''org.acme.Nope''] (JStr ''$class''))
   \<and> mm_getType acmeModel (getProp [''$class'' \<mapsto> JStr ''org.acme.Nope''] (JStr ''$class'')) = None
   \<and> getIdentifier [''$class'' \<mapsto> JStr ''org.acme.Nope''] acmeModel = Inl UnknownType
   \<and> setIdentifier [''$class'' \<mapsto> JStr ''org.acme.Nope''] acmeModel (JStr ''p2'') = Inl UnknownType
   \<and> getType [''$class'' \<mapsto> JStr ''org.acme.Nope''] acmeModel = Inl UnknownType
   \<and> instanceOf [''$class'' \<mapsto> JStr ''org.acme.Nope''] acmeModel ''org.acme.A''
       = Some (Inl UnknownType)"
proof -
  have h1: "\<not> truthy (getProp [''id'' \<mapsto> JStr ''p1''] (JStr ''$class''))"
    by (simp add: getProp_def)
  have h2: "truthy (getProp [''$class'' \<mapsto> JStr ''org.acme.Nope''] (JStr ''$class''))"
    by (simp add: getProp_def)
  have h3: "mm_getType acmeModel (getProp [''$class'' \<mapsto> JStr ''org.acme.Nope''] (JStr ''$class''))
              = None"
    by (simp add: getProp_def acmeModel_def acmeTypes_def)
  show ?thesis
    using h1 h2 h3
      introspection_precondition [of "[''id'' \<mapsto> JStr ''p1'']" acmeModel "JStr ''p2''" "''org.acme.A''"]
      introspection_precondition [of "[''$class'' \<mapsto> JStr ''org.acme.Nope'']" acmeModel
                                     "JStr ''p2''" "''org.acme.A''"]
    by blast
qed

text \<open>
  C10. On a valid tagged object, \<open>isIdentifiable\<close> is true exactly when
  \<open>getIdentifierFieldName\<close> of the resolved declaration is not \<open>null\<close>. When it is
  \<open>undefined\<close> or the empty string, \<open>isIdentifiable\<close> is true and \<open>getIdentifier\<close>
  fails with \<open>NotIdentifiable\<close>.
\<close>

theorem isIdentifiable_not_null:
  assumes "truthy (getProp obj (JStr ''$class''))"
    and "mm_getType mm (getProp obj (JStr ''$class'')) = Some d"
  shows "isIdentifiable obj mm = Inr (td_getIdentifierFieldName mm d \<noteq> JNull)
       \<and> (td_getIdentifierFieldName mm d = JUndefined \<or> td_getIdentifierFieldName mm d = JStr []
            \<longrightarrow> isIdentifiable obj mm = Inr True \<and> getIdentifier obj mm = Inl NotIdentifiable)"
  using assms
  by (auto simp: isIdentifiable_def getIdentifier_def checkConcertoObject_def Let_def)

theorem isIdentifiable_not_null_witness:
  "truthy (getProp [''$class'' \<mapsto> JStr ''org.acme.U''] (JStr ''$class''))
   \<and> mm_getType acmeModel (getProp [''$class'' \<mapsto> JStr ''org.acme.U''] (JStr ''$class''))
       = Some ''org.acme.U''
   \<and> td_getIdentifierFieldName acmeModel ''org.acme.U'' = JUndefined
   \<and> isIdentifiable [''$class'' \<mapsto> JStr ''org.acme.U''] acmeModel = Inr True
   \<and> getIdentifier [''$class'' \<mapsto> JStr ''org.acme.U''] acmeModel = Inl NotIdentifiable
   \<and> truthy (getProp [''$class'' \<mapsto> JStr ''org.acme.E''] (JStr ''$class''))
   \<and> mm_getType acmeModel (getProp [''$class'' \<mapsto> JStr ''org.acme.E''] (JStr ''$class''))
       = Some ''org.acme.E''
   \<and> td_getIdentifierFieldName acmeModel ''org.acme.E'' = JStr []
   \<and> isIdentifiable [''$class'' \<mapsto> JStr ''org.acme.E''] acmeModel = Inr True
   \<and> getIdentifier [''$class'' \<mapsto> JStr ''org.acme.E''] acmeModel = Inl NotIdentifiable
   \<and> truthy (getProp [''$class'' \<mapsto> JStr ''org.acme.Thing''] (JStr ''$class''))
   \<and> mm_getType acmeModel (getProp [''$class'' \<mapsto> JStr ''org.acme.Thing''] (JStr ''$class''))
       = Some ''org.acme.Thing''
   \<and> td_getIdentifierFieldName acmeModel ''org.acme.Thing'' = JNull
   \<and> isIdentifiable [''$class'' \<mapsto> JStr ''org.acme.Thing''] acmeModel = Inr False"
proof -
  have u: "truthy (getProp [''$class'' \<mapsto> JStr ''org.acme.U''] (JStr ''$class''))"
    "mm_getType acmeModel (getProp [''$class'' \<mapsto> JStr ''org.acme.U''] (JStr ''$class''))
       = Some ''org.acme.U''"
    "td_getIdentifierFieldName acmeModel ''org.acme.U'' = JUndefined"
    by (simp_all add: getProp_def acmeModel_def acmeTypes_def)
  have e: "truthy (getProp [''$class'' \<mapsto> JStr ''org.acme.E''] (JStr ''$class''))"
    "mm_getType acmeModel (getProp [''$class'' \<mapsto> JStr ''org.acme.E''] (JStr ''$class''))
       = Some ''org.acme.E''"
    "td_getIdentifierFieldName acmeModel ''org.acme.E'' = JStr []"
    by (simp_all add: getProp_def acmeModel_def acmeTypes_def)
  have t: "truthy (getProp [''$class'' \<mapsto> JStr ''org.acme.Thing''] (JStr ''$class''))"
    "mm_getType acmeModel (getProp [''$class'' \<mapsto> JStr ''org.acme.Thing''] (JStr ''$class''))
       = Some ''org.acme.Thing''"
    "td_getIdentifierFieldName acmeModel ''org.acme.Thing'' = JNull"
    by (simp_all add: getProp_def acmeModel_def acmeTypes_def)
  have ru: "isIdentifiable [''$class'' \<mapsto> JStr ''org.acme.U''] acmeModel = Inr True
            \<and> getIdentifier [''$class'' \<mapsto> JStr ''org.acme.U''] acmeModel = Inl NotIdentifiable"
    using isIdentifiable_not_null [OF u(1,2)] u(3) by simp
  have re: "isIdentifiable [''$class'' \<mapsto> JStr ''org.acme.E''] acmeModel = Inr True
            \<and> getIdentifier [''$class'' \<mapsto> JStr ''org.acme.E''] acmeModel = Inl NotIdentifiable"
    using isIdentifiable_not_null [OF e(1,2)] e(3) by simp
  have rt: "isIdentifiable [''$class'' \<mapsto> JStr ''org.acme.Thing''] acmeModel = Inr False"
    using isIdentifiable_not_null [OF t(1,2)] t(3) by simp
  show ?thesis using u e t ru re rt by blast
qed

text \<open>
  C1. On an object of a type whose \<open>getIdentifierFieldName\<close> is \<open>null\<close>,
  \<open>getIdentifier\<close> fails with \<open>NotIdentifiable\<close>, while \<open>setIdentifier\<close> returns
  normally and leaves the identifier under the property named \<open>null\<close>.
\<close>

theorem setIdentifier_unguarded:
  "getIdentifier [''$class'' \<mapsto> JStr ''org.acme.Thing''] acmeModel = Inl NotIdentifiable
   \<and> setIdentifier [''$class'' \<mapsto> JStr ''org.acme.Thing''] acmeModel (JStr ''t1'')
       = Inr [''$class'' \<mapsto> JStr ''org.acme.Thing'', ''null'' \<mapsto> JStr ''t1'']"
  by (simp add: getIdentifier_def setIdentifier_def checkConcertoObject_def getProp_def
                setProp_def acmeModel_def acmeTypes_def)

end
